theory Spec2Isabelle
  imports Complex_Main "HOL-Library.AList"
begin

section \<open>Python strings\<close>

text \<open>
  A Python 3 \<^verbatim>\<open>str\<close> is a sequence of Unicode code points, and \<^verbatim>\<open>len\<close> counts code
  points. The price pattern of the menu segmenter mentions characters beyond one byte
  (the euro, pound, yen and rupee signs), so a string is modelled as the list of its code
  points. ASCII literals are written through \<open>ustr\<close>.
\<close>

type_synonym ustring = "nat list"

definition ustr :: "string \<Rightarrow> ustring" where
  "ustr s = map of_char s"

text \<open>
  \<^verbatim>\<open>str.strip()\<close> and the regular expression class \<^verbatim>\<open>\s\<close> use the interpreter's
  whitespace test (\<^verbatim>\<open>str.isspace\<close> on one character): the ASCII controls
  \<^verbatim>\<open>\t \n \v \f \r\<close>, the separators U+001C to U+001F, the space, and the Unicode
  spaces U+0085, U+00A0, U+1680, U+2000 to U+200A, U+2028, U+2029, U+202F, U+205F, U+3000.
\<close>

definition isspace :: "nat \<Rightarrow> bool" where
  "isspace c \<longleftrightarrow>
     (9 \<le> c \<and> c \<le> 13) \<or> (28 \<le> c \<and> c \<le> 32) \<or> c = 133 \<or> c = 160 \<or> c = 5760 \<or>
     (8192 \<le> c \<and> c \<le> 8202) \<or> c = 8232 \<or> c = 8233 \<or> c = 8239 \<or> c = 8287 \<or> c = 12288"

text \<open>
  The class \<^verbatim>\<open>\d\<close> of a \<^verbatim>\<open>str\<close> pattern is the Unicode category Nd. It contains the
  ASCII digits in every version of the character database, and grows with each version;
  the functions below therefore take the decimal-digit test of the running interpreter as
  their first argument \<open>dec\<close>. \<open>ascii_digit\<close> is the part of it that never changes, and
  \<open>ascii_digits dec\<close> says that \<open>dec\<close> agrees with it on ASCII.
\<close>

definition ascii_digit :: "nat \<Rightarrow> bool" where
  "ascii_digit c \<longleftrightarrow> 48 \<le> c \<and> c \<le> 57"

definition ascii_digits :: "(nat \<Rightarrow> bool) \<Rightarrow> bool" where
  "ascii_digits dec \<longleftrightarrow> (\<forall>c. c < 128 \<longrightarrow> dec c = ascii_digit c)"

definition strip :: "ustring \<Rightarrow> ustring" where
  "strip s = rev (dropWhile isspace (rev (dropWhile isspace s)))"

text \<open>
  \<^verbatim>\<open>text.split(sep)\<close> with a one-character separator: the pieces between the separators,
  empty pieces kept, never an empty list (\<^verbatim>\<open>''.split('\n') == ['']\<close>). The
  recursive call therefore always returns a first piece; the second branch of the
  \<open>case\<close> is never taken (\<open>split_nonempty\<close> below).
\<close>

fun split :: "nat \<Rightarrow> ustring \<Rightarrow> ustring list" where
  "split sep [] = [[]]"
| "split sep (c # cs) =
     (if c = sep then [] # split sep cs
      else (case split sep cs of l # ls \<Rightarrow> (c # l) # ls | [] \<Rightarrow> [[c]]))"

text \<open>\<^verbatim>\<open>sep.join(pieces)\<close>, the inverse of \<open>split\<close> on a non-empty list.\<close>

fun join :: "nat \<Rightarrow> ustring list \<Rightarrow> ustring" where
  "join sep [] = []"
| "join sep [l] = l"
| "join sep (l # ls) = l @ sep # join sep ls"

section \<open>Regular expressions as the segmenter uses them\<close>

text \<open>
  The fragment of Python's \<^verbatim>\<open>re\<close> syntax that the price pattern is written in:
  character classes, greedy repetition of a class, an optional group, concatenation,
  ordered alternation and literal words.
\<close>

datatype cls = Digit | Space | OneOf "nat list"

datatype rx =
    Sym cls
  | Star cls
  | Plus cls
  | Opt rx
  | Cat rx rx
  | Alt rx rx
  | Word ustring

fun in_cls :: "(nat \<Rightarrow> bool) \<Rightarrow> cls \<Rightarrow> nat \<Rightarrow> bool" where
  "in_cls dec Digit c = dec c"
| "in_cls dec Space c = isspace c"
| "in_cls dec (OneOf cs) c = (c \<in> set cs)"

text \<open>
  \<^verbatim>\<open>re\<close> is a backtracking matcher. \<open>rx_match dec r s\<close> lists the remainders of \<open>s\<close> after
  every way \<open>r\<close> can match a prefix of \<open>s\<close>, in the order in which backtracking tries
  them: a greedy repetition tries the longest run first, an optional group tries its body
  first, an alternation tries its left branch first. The head of the list is the match
  \<^verbatim>\<open>re\<close> reports at this position.
\<close>

fun greedy :: "(nat \<Rightarrow> bool) \<Rightarrow> ustring \<Rightarrow> ustring list" where
  "greedy p [] = [[]]"
| "greedy p (c # cs) = (if p c then greedy p cs @ [c # cs] else [c # cs])"

fun rx_match :: "(nat \<Rightarrow> bool) \<Rightarrow> rx \<Rightarrow> ustring \<Rightarrow> ustring list" where
  "rx_match dec (Sym k) s =
     (case s of [] \<Rightarrow> [] | c # cs \<Rightarrow> if in_cls dec k c then [cs] else [])"
| "rx_match dec (Star k) s = greedy (in_cls dec k) s"
| "rx_match dec (Plus k) s =
     (case s of [] \<Rightarrow> [] | c # cs \<Rightarrow> if in_cls dec k c then greedy (in_cls dec k) cs else [])"
| "rx_match dec (Opt r) s = rx_match dec r s @ [s]"
| "rx_match dec (Cat r1 r2) s = concat (map (rx_match dec r2) (rx_match dec r1 s))"
| "rx_match dec (Alt r1 r2) s = rx_match dec r1 s @ rx_match dec r2 s"
| "rx_match dec (Word w) s = (if take (length w) s = w then [drop (length w) s] else [])"

text \<open>
  \<^verbatim>\<open>re.search(pattern, s)\<close> tries the start positions from left to right and returns the
  first match; \<open>None\<close> is Python's \<^verbatim>\<open>None\<close>, and \<open>Some g\<close> carries \<^verbatim>\<open>match.group()\<close>,
  the matched text.
\<close>

fun re_search :: "(nat \<Rightarrow> bool) \<Rightarrow> rx \<Rightarrow> ustring \<Rightarrow> ustring option" where
  "re_search dec r [] = (case rx_match dec r [] of [] \<Rightarrow> None | rest # _ \<Rightarrow> Some [])"
| "re_search dec r (c # cs) =
     (case rx_match dec r (c # cs) of
        [] \<Rightarrow> re_search dec r cs
      | rest # _ \<Rightarrow> Some (take (Suc (length cs) - length rest) (c # cs)))"

section \<open>The menu segmenter: \<^verbatim>\<open>extract_menu_items\<close>\<close>

text \<open>
  The pattern of line 80, piece by piece. With \<^verbatim>\<open>S\<close> for the class of the five
  currency signs (U+0024 dollar, U+20AC euro, U+00A3 pound, U+00A5 yen, U+20B9 rupee) and
  \<^verbatim>\<open>N\<close> for the amount \<^verbatim>\<open>\d+(?:\.\d{2})?\<close> it reads
  \<^verbatim>\<open>S\s*N|N\s*S|N\s*(?:USD|EUR|GBP|JPY|INR)\<close>.
\<close>

definition currency_sign :: rx where
  "currency_sign = Sym (OneOf [36, 8364, 163, 165, 8377])"

definition amount :: rx where
  "amount = Cat (Plus Digit) (Opt (Cat (Sym (OneOf [46])) (Cat (Sym Digit) (Sym Digit))))"

definition currency_code :: rx where
  "currency_code =
     Alt (Word (ustr ''USD'')) (Alt (Word (ustr ''EUR'')) (Alt (Word (ustr ''GBP''))
       (Alt (Word (ustr ''JPY'')) (Word (ustr ''INR'')))))"

definition price_pattern :: rx where
  "price_pattern =
     Alt (Cat currency_sign (Cat (Star Space) amount))
      (Alt (Cat amount (Cat (Star Space) currency_sign))
           (Cat amount (Cat (Star Space) currency_code)))"

text \<open>
  A menu item is a Python dict with string keys, created empty and filled key by key; it
  is modelled as an association list in insertion order. \<open>AList.update\<close> is
  \<^verbatim>\<open>item[key] = value\<close>, \<open>map_of item key\<close> is the lookup, and the empty list is the
  empty (falsy) dict.
\<close>

type_synonym menu_item = "(string \<times> ustring) list"

definition has_price :: "(nat \<Rightarrow> bool) \<Rightarrow> ustring \<Rightarrow> bool" where
  "has_price dec line \<longleftrightarrow> re_search dec price_pattern line \<noteq> None"

text \<open>\<^verbatim>\<open>current_item.get(key, default)\<close>.\<close>

definition get_default :: "menu_item \<Rightarrow> string \<Rightarrow> ustring \<Rightarrow> ustring" where
  "get_default item key d = (case map_of item key of None \<Rightarrow> d | Some v \<Rightarrow> v)"

text \<open>
  One pass through the body of the loop of lines 74 to 100, on the pair
  \<open>(menu_items, current_item)\<close>. In the first branch \<open>has_price\<close> holds, so the match
  object whose \<^verbatim>\<open>group()\<close> is read is not \<^verbatim>\<open>None\<close>.
\<close>

definition process_line ::
  "(nat \<Rightarrow> bool) \<Rightarrow> menu_item list \<times> menu_item \<Rightarrow> ustring \<Rightarrow> menu_item list \<times> menu_item" where
  "process_line dec st line =
     (let menu_items = fst st; current_item = snd st in
      if length line < 3 then (menu_items, current_item)
      else
        let has_price = has_price dec line;
            is_description = (20 < length line \<and> \<not> has_price)
        in
          if has_price \<and> current_item \<noteq> [] then
            let item1 = AList.update ''price'' (the (re_search dec price_pattern line)) current_item;
                item2 = AList.update ''full_text''
                          (get_default item1 ''name'' [] @ ustr '' '' @ line) item1
            in (menu_items @ [item2], [])
          else if is_description \<and> current_item = [] then
            (menu_items, [(''description'', line)])
          else if \<not> has_price \<and> \<not> is_description then
            (if current_item \<noteq> [] then (menu_items, AList.update ''name'' line current_item)
             else (menu_items, [(''name'', line)]))
          else (menu_items, current_item))"

text \<open>The list comprehension of line 69: the stripped lines that are not empty.\<close>

definition clean_lines :: "ustring \<Rightarrow> ustring list" where
  "clean_lines text = filter (\<lambda>l. l \<noteq> []) (map strip (split 10 text))"

text \<open>Lines 102 to 106: the item still open after the last line is appended.\<close>

definition flush :: "menu_item list \<times> menu_item \<Rightarrow> menu_item list" where
  "flush st = (if snd st \<noteq> [] then fst st @ [snd st] else fst st)"

definition segment_lines ::
  "(nat \<Rightarrow> bool) \<Rightarrow> menu_item list \<times> menu_item \<Rightarrow> ustring list \<Rightarrow> menu_item list \<times> menu_item" where
  "segment_lines dec st ls = foldl (process_line dec) st ls"

definition extract_menu_items :: "(nat \<Rightarrow> bool) \<Rightarrow> ustring \<Rightarrow> menu_item list" where
  "extract_menu_items dec text = flush (segment_lines dec ([], []) (clean_lines text))"

section \<open>The OCR selector: lines 151 to 183 of \<^verbatim>\<open>ocr_endpoint\<close>\<close>

text \<open>
  The OCR engine is outside the program. Its two entry points are functions of the
  configuration string (the image is fixed during one request); \<open>None\<close> stands for a
  raised exception. \<open>image_to_data\<close> gives the column \<^verbatim>\<open>data['conf']\<close> as the loop
  reads it, through \<^verbatim>\<open>int(conf)\<close>: one integer score per token, \<open>-1\<close> for the rows
  that are not words. A cell on which \<^verbatim>\<open>int\<close> raises makes the whole attempt fail, as
  an engine error does.
\<close>

record tesseract =
  image_to_data :: "string \<Rightarrow> int list option"
  image_to_string :: "string \<Rightarrow> ustring option"

definition ocr_configs :: "string list" where
  "ocr_configs = [''--oem 3 --psm 6'', ''--oem 3 --psm 4'', ''--oem 3 --psm 3'']"

text \<open>
  Lines 168 and 169. Python's \<^verbatim>\<open>/\<close> on two integers is the exact quotient rounded to the
  nearest double; the model keeps the exact quotient.
\<close>

definition avg_confidence :: "int list \<Rightarrow> rat" where
  "avg_confidence conf =
     (let confidences = filter (\<lambda>c. 0 < c) conf in
      if confidences \<noteq> [] then of_int (sum_list confidences) / of_nat (length confidences)
      else 0)"

text \<open>The body of the \<^verbatim>\<open>try\<close> of lines 163 to 172: the text and score of one profile.\<close>

definition run_config :: "tesseract \<Rightarrow> string \<Rightarrow> (ustring \<times> rat) option" where
  "run_config t config =
     (case image_to_data t config of
        None \<Rightarrow> None
      | Some conf \<Rightarrow>
          (case image_to_string t config of
             None \<Rightarrow> None
           | Some text \<Rightarrow> Some (text, avg_confidence conf)))"

text \<open>
  One pass through the loop of lines 162 to 180 on the pair
  \<open>(best_text, best_confidence)\<close>; a failed attempt is logged and skipped.
\<close>

definition try_config :: "tesseract \<Rightarrow> ustring \<times> rat \<Rightarrow> string \<Rightarrow> ustring \<times> rat" where
  "try_config t best config =
     (case run_config t config of
        None \<Rightarrow> best
      | Some (text, avg) \<Rightarrow> if snd best < avg then (text, avg) else best)"

definition select_best :: "tesseract \<Rightarrow> ustring \<times> rat" where
  "select_best t = foldl (try_config t) ([], 0) ocr_configs"

section \<open>Language detection and translation\<close>

text \<open>
  The translation service is a remote, stateful collaborator. A call takes the state of
  the world \<open>'s\<close> and returns the new one, with \<open>None\<close> for a raised exception (also one
  raised while reading the reply).
\<close>

record 's translator =
  detect :: "'s \<Rightarrow> ustring \<Rightarrow> ustring option \<times> 's"
  translate :: "'s \<Rightarrow> ustring \<Rightarrow> ustring \<Rightarrow> ustring option \<times> 's"


definition translate_text :: "'s translator \<Rightarrow> 's \<Rightarrow> ustring \<Rightarrow> ustring \<Rightarrow> ustring \<times> 's" where
  "translate_text tr s text target_lang =
     (if target_lang = ustr ''en'' then (text, s)
      else
        (case translate tr s text target_lang of
           (Some result, s') \<Rightarrow> (result, s')
         | (None, s') \<Rightarrow> (text, s')))"

text \<open>Lines 194 to 196: one key of one item.\<close>

definition translate_key ::
  "'s translator \<Rightarrow> ustring \<Rightarrow> menu_item \<times> 's \<Rightarrow> string \<Rightarrow> menu_item \<times> 's" where
  "translate_key tr target_lang st key =
     (case map_of (fst st) key of
        None \<Rightarrow> st
      | Some v \<Rightarrow>
          (case translate_text tr (snd st) v target_lang of
             (translated, s') \<Rightarrow> (AList.update (key @ ''_translated'') translated (fst st), s')))"

definition translate_item ::
  "'s translator \<Rightarrow> ustring \<Rightarrow> menu_item \<times> 's \<Rightarrow> menu_item \<times> 's" where
  "translate_item tr target_lang st =
     foldl (translate_key tr target_lang) st [''name'', ''description'']"

fun translate_items ::
  "'s translator \<Rightarrow> ustring \<Rightarrow> menu_item list \<Rightarrow> 's \<Rightarrow> menu_item list \<times> 's" where
  "translate_items tr target_lang [] s = ([], s)"
| "translate_items tr target_lang (item # items) s =
     (case translate_item tr target_lang (item, s) of
        (item', s') \<Rightarrow>
          (case translate_items tr target_lang items s' of
             (items', s'') \<Rightarrow> (item' # items', s'')))"

text \<open>Lines 192 to 196, with the guard of line 192.\<close>

definition translate_menu ::
  "'s translator \<Rightarrow> ustring \<Rightarrow> ustring \<Rightarrow> menu_item list \<Rightarrow> 's \<Rightarrow> menu_item list \<times> 's" where
  "translate_menu tr target_lang detected_lang items s =
     (if target_lang \<noteq> ustr ''en'' \<and> detected_lang \<noteq> target_lang
      then translate_items tr target_lang items s
      else (items, s))"

section \<open>The pipeline after preprocessing: lines 151 to 209\<close>


record response =
  success :: bool
  detected_language :: ustring
  target_language :: ustring
  confidence :: rat
  raw_text :: ustring
  menu_items :: "menu_item list"
  total_items :: nat


section \<open>Notions of the specification\<close>

text \<open>
  The definitions of this section are not code of the program: they spell out the words
  in which the specification speaks about it, and the simulated collaborators on which
  the properties are exercised.
\<close>


text \<open>
  The candidates of the selector: text and mean confidence of the profiles that ran
  without an error, in the order of the profiles.
\<close>

definition candidates :: "tesseract \<Rightarrow> (ustring \<times> rat) list" where
  "candidates t = List.map_filter (run_config t) ocr_configs"

text \<open>The first candidate of a list whose confidence is the highest of the list.\<close>

definition highest_first :: "(ustring \<times> rat) list \<Rightarrow> (ustring \<times> rat) option" where
  "highest_first cs = find (\<lambda>c. snd c = Max (set (map snd cs))) cs"


text \<open>
  A menu item closed by a price line carries a price and a full text; a partial record
  carries neither.
\<close>

definition closed :: "menu_item \<Rightarrow> bool" where
  "closed item \<longleftrightarrow> map_of item ''price'' \<noteq> None \<and> map_of item ''full_text'' \<noteq> None"

definition partial_record :: "menu_item \<Rightarrow> bool" where
  "partial_record item \<longleftrightarrow> map_of item ''price'' = None \<and> map_of item ''full_text'' = None"

text \<open>
  The lines of a text that the segmenter looks at (trimmed length at least 3), and the
  text with all other lines removed.
\<close>

definition long_lines :: "ustring \<Rightarrow> ustring list" where
  "long_lines text = filter (\<lambda>l. 3 \<le> length (strip l)) (split 10 text)"

definition drop_short_lines :: "ustring \<Rightarrow> ustring" where
  "drop_short_lines text = join 10 (long_lines text)"

text \<open>
  What translation may do to an item: every key other than the two synthesized ones
  keeps its value (or its absence), and the keys gained are the synthesized keys of the
  fields that are present.
\<close>

definition keeps_fields :: "menu_item \<Rightarrow> menu_item \<Rightarrow> bool" where
  "keeps_fields item item' \<longleftrightarrow>
     (\<forall>key. key \<noteq> ''name_translated'' \<and> key \<noteq> ''description_translated'' \<longrightarrow>
        map_of item' key = map_of item key)"

definition translated_keys :: "menu_item \<Rightarrow> string list" where
  "translated_keys item =
     map (\<lambda>key. key @ ''_translated'')
       (filter (\<lambda>key. map_of item key \<noteq> None) [''name'', ''description''])"

definition gains_translations :: "menu_item \<Rightarrow> menu_item \<Rightarrow> bool" where
  "gains_translations item item' \<longleftrightarrow>
     set (map fst item') = set (map fst item) \<union> set (translated_keys item)"

text \<open>
  Simulated collaborators. The simulated engine answers from a table of configuration,
  confidence column and text, and raises on a configuration that is not in the table.
  The simulated translation service counts its calls in the state, detects a fixed
  language (or raises), and translates from a dictionary, raising on a text that is not
  in it.
\<close>

definition fake_tesseract :: "(string \<times> int list \<times> ustring) list \<Rightarrow> tesseract" where
  "fake_tesseract table =
     \<lparr>image_to_data = (\<lambda>config. map_option fst (map_of table config)),
      image_to_string = (\<lambda>config. map_option snd (map_of table config))\<rparr>"

definition fake_translator :: "ustring option \<Rightarrow> (ustring \<times> ustring) list \<Rightarrow> nat translator" where
  "fake_translator lang dictionary =
     \<lparr>detect = (\<lambda>s text. (lang, Suc s)),
      translate = (\<lambda>s text dest. (map_of dictionary text, Suc s))\<rparr>"

text \<open>The invariant of the segmenter's loop.\<close>

definition segmenter_inv :: "menu_item list \<times> menu_item \<Rightarrow> bool" where
  "segmenter_inv st \<longleftrightarrow> (\<forall>item\<in>set (fst st). closed item) \<and> partial_record (snd st)"

section \<open>Evaluating the segmenter on concrete lines\<close>

lemma dec_ascii: "ascii_digits dec \<Longrightarrow> c < 128 \<Longrightarrow> dec c = (48 \<le> c \<and> c \<le> 57)"
  by (simp add: ascii_digits_def ascii_digit_def)

lemma ascii_digits_ascii_digit: "ascii_digits ascii_digit"
  by (simp add: ascii_digits_def)

lemmas price_pattern_defs = price_pattern_def currency_sign_def amount_def currency_code_def

lemma search_dollar_prefix:
  "ascii_digits dec \<Longrightarrow> re_search dec price_pattern (ustr ''$12.50'') = Some (ustr ''$12.50'')"
  by (simp add: dec_ascii price_pattern_defs ustr_def isspace_def)

lemma search_description:
  "ascii_digits dec \<Longrightarrow>
   re_search dec price_pattern (ustr ''Delicious handmade pasta with truffle sauce'') = None"
  by (simp add: dec_ascii price_pattern_defs ustr_def isspace_def)

lemma search_pasta: "ascii_digits dec \<Longrightarrow> re_search dec price_pattern (ustr ''Pasta'') = None"
  by (simp add: dec_ascii price_pattern_defs ustr_def isspace_def)

lemma pasta_lines:
  "clean_lines (ustr ''Pasta\<newline>Delicious handmade pasta with truffle sauce\<newline>$12.50'') =
     [ustr ''Pasta'', ustr ''Delicious handmade pasta with truffle sauce'', ustr ''$12.50'']"
  by (simp add: clean_lines_def strip_def isspace_def ustr_def)

text \<open>
  Claim C2. On the text \<^verbatim>\<open>"Pasta\nDelicious handmade pasta with truffle sauce\n$12.50"\<close>
  the segmenter returns exactly one item, with name \<^verbatim>\<open>Pasta\<close>, price \<^verbatim>\<open>$12.50\<close> and
  full text \<^verbatim>\<open>Pasta $12.50\<close>; the description line is in no returned item. This holds
  for every decimal-digit table that agrees with ASCII on ASCII.
\<close>

theorem segment_pasta_example:
  assumes "ascii_digits dec"
  shows "extract_menu_items dec
       (ustr ''Pasta\<newline>Delicious handmade pasta with truffle sauce\<newline>$12.50'') =
     [[(''name'', ustr ''Pasta''), (''price'', ustr ''$12.50''),
       (''full_text'', ustr ''Pasta $12.50'')]]"
proof -
  have 1: "process_line dec ([], []) (ustr ''Pasta'') = ([], [(''name'', ustr ''Pasta'')])"
    using assms by (simp add: process_line_def Let_def has_price_def search_pasta)
      (simp add: ustr_def)
  have 2: "process_line dec ([], [(''name'', ustr ''Pasta'')])
             (ustr ''Delicious handmade pasta with truffle sauce'') =
           ([], [(''name'', ustr ''Pasta'')])"
    using assms by (simp add: process_line_def Let_def has_price_def search_description)
      (simp add: ustr_def)
  have 3: "process_line dec ([], [(''name'', ustr ''Pasta'')]) (ustr ''$12.50'') =
           ([[(''name'', ustr ''Pasta''), (''price'', ustr ''$12.50''),
              (''full_text'', ustr ''Pasta $12.50'')]], [])"
    using assms
    by (simp add: process_line_def Let_def has_price_def search_dollar_prefix get_default_def)
      (simp add: ustr_def)
  show ?thesis
    by (simp add: extract_menu_items_def segment_lines_def pasta_lines 1 2 3 flush_def)
qed

theorem segment_pasta_example_witness:
  "ascii_digits ascii_digit \<and>
   extract_menu_items ascii_digit
       (ustr ''Pasta\<newline>Delicious handmade pasta with truffle sauce\<newline>$12.50'') =
     [[(''name'', ustr ''Pasta''), (''price'', ustr ''$12.50''),
       (''full_text'', ustr ''Pasta $12.50'')]] \<and>
   map_of (hd (extract_menu_items ascii_digit
       (ustr ''Pasta\<newline>Delicious handmade pasta with truffle sauce\<newline>$12.50'')))
     ''description'' = None"
  using segment_pasta_example [OF ascii_digits_ascii_digit] ascii_digits_ascii_digit by simp

text \<open>
  Claim C6. The price pattern finds a price in each of \<^verbatim>\<open>$12.50\<close>, \<^verbatim>\<open>12.50$\<close>,
  \<^verbatim>\<open>12 USD\<close> and the rupee sign (U+20B9) followed by \<^verbatim>\<open>100\<close>, and none in
  \<^verbatim>\<open>twelve dollars\<close>.
\<close>

theorem price_pattern_examples:
  assumes "ascii_digits dec"
  shows "has_price dec (ustr ''$12.50'') \<and> has_price dec (ustr ''12.50$'') \<and>
         has_price dec (ustr ''12 USD'') \<and> has_price dec (8377 # ustr ''100'') \<and>
         \<not> has_price dec (ustr ''twelve dollars'')"
  using assms by (simp add: has_price_def dec_ascii price_pattern_defs ustr_def isspace_def)

theorem price_pattern_examples_witness:
  "ascii_digits ascii_digit \<and>
   has_price ascii_digit (ustr ''$12.50'') \<and> has_price ascii_digit (ustr ''12.50$'') \<and>
   has_price ascii_digit (ustr ''12 USD'') \<and> has_price ascii_digit (8377 # ustr ''100'') \<and>
   \<not> has_price ascii_digit (ustr ''twelve dollars'')"
  using price_pattern_examples [OF ascii_digits_ascii_digit] ascii_digits_ascii_digit by simp

section \<open>The loop of the segmenter\<close>

lemma process_line_short: "length line < 3 \<Longrightarrow> process_line dec st line = st"
  by (simp add: process_line_def)

lemma process_line_price_idle:
  "has_price dec line \<Longrightarrow> process_line dec (items, []) line = (items, [])"
  by (simp add: process_line_def Let_def)

lemma process_line_inv: "segmenter_inv st \<Longrightarrow> segmenter_inv (process_line dec st line)"
  by (auto simp: segmenter_inv_def process_line_def Let_def closed_def partial_record_def
      AList.update_conv')

lemma segment_lines_inv: "segmenter_inv st \<Longrightarrow> segmenter_inv (segment_lines dec st ls)"
  unfolding segment_lines_def
  by (induction ls arbitrary: st) (simp_all add: process_line_inv)

lemma segmenter_inv_init: "segmenter_inv ([], [])"
  by (simp add: segmenter_inv_def partial_record_def)

lemma segment_lines_append:
  "segment_lines dec st (xs @ ys) = segment_lines dec (segment_lines dec st xs) ys"
  by (simp add: segment_lines_def)

lemma search_tea: "re_search ascii_digit price_pattern (ustr ''Tea'') = None"
  by (simp add: ascii_digit_def price_pattern_defs ustr_def isspace_def)

lemma search_coffee: "re_search ascii_digit price_pattern (ustr ''Coffee'') = None"
  by (simp add: ascii_digit_def price_pattern_defs ustr_def isspace_def)

lemma search_two_dollars:
  "re_search ascii_digit price_pattern (ustr ''$2.00'') = Some (ustr ''$2.00'')"
  by (simp add: ascii_digit_def price_pattern_defs ustr_def isspace_def)

lemma process_tea:
  "process_line ascii_digit (items, []) (ustr ''Tea'') = (items, [(''name'', ustr ''Tea'')])"
  by (simp add: process_line_def Let_def has_price_def search_tea) (simp add: ustr_def)

lemma process_coffee:
  "process_line ascii_digit (items, []) (ustr ''Coffee'') =
     (items, [(''name'', ustr ''Coffee'')])"
  by (simp add: process_line_def Let_def has_price_def search_coffee) (simp add: ustr_def)

lemma process_two_dollars_open:
  "process_line ascii_digit (items, [(''name'', ustr ''Tea'')]) (ustr ''$2.00'') =
     (items @ [[(''name'', ustr ''Tea''), (''price'', ustr ''$2.00''),
                (''full_text'', ustr ''Tea $2.00'')]], [])"
  by (simp add: process_line_def Let_def has_price_def search_two_dollars get_default_def)
    (simp add: ustr_def)

lemma tea_coffee:
  "extract_menu_items ascii_digit (ustr ''Tea\<newline>$2.00\<newline>Coffee'') =
     [[(''name'', ustr ''Tea''), (''price'', ustr ''$2.00''), (''full_text'', ustr ''Tea $2.00'')],
      [(''name'', ustr ''Coffee'')]]"
proof -
  have "clean_lines (ustr ''Tea\<newline>$2.00\<newline>Coffee'') =
      [ustr ''Tea'', ustr ''$2.00'', ustr ''Coffee'']"
    by (simp add: clean_lines_def strip_def isspace_def ustr_def)
  then show ?thesis
    by (simp add: extract_menu_items_def segment_lines_def process_tea
        process_two_dollars_open process_coffee flush_def)
qed

text \<open>
  Claim C5. In the output of the segmenter every item but the last has a price and a
  full text; the last item has both, or is a partial record with neither.
\<close>

theorem extract_menu_items_closed_prefix:
  "(\<forall>item\<in>set (butlast (extract_menu_items dec text)). closed item) \<and>
   (extract_menu_items dec text \<noteq> [] \<longrightarrow>
      closed (last (extract_menu_items dec text)) \<or>
      partial_record (last (extract_menu_items dec text)))"
proof -
  define st where "st = segment_lines dec ([], []) (clean_lines text)"
  have inv: "segmenter_inv st"
    unfolding st_def by (rule segment_lines_inv [OF segmenter_inv_init])
  have out: "extract_menu_items dec text = flush st"
    by (simp add: extract_menu_items_def st_def)
  show ?thesis
  proof (cases "snd st = []")
    case True
    then have "flush st = fst st" by (simp add: flush_def)
    with inv out show ?thesis
      by (auto simp: segmenter_inv_def dest: in_set_butlastD)
  next
    case False
    then have "flush st = fst st @ [snd st]" by (simp add: flush_def)
    with inv out show ?thesis
      by (simp add: segmenter_inv_def)
  qed
qed

theorem extract_menu_items_closed_prefix_witness:
  "butlast (extract_menu_items ascii_digit (ustr ''Tea\<newline>$2.00\<newline>Coffee'')) =
     [[(''name'', ustr ''Tea''), (''price'', ustr ''$2.00''),
       (''full_text'', ustr ''Tea $2.00'')]] \<and>
   closed [(''name'', ustr ''Tea''), (''price'', ustr ''$2.00''),
       (''full_text'', ustr ''Tea $2.00'')] \<and>
   last (extract_menu_items ascii_digit (ustr ''Tea\<newline>$2.00\<newline>Coffee'')) =
     [(''name'', ustr ''Coffee'')] \<and>
   partial_record [(''name'', ustr ''Coffee'')] \<and>
   \<not> closed [(''name'', ustr ''Coffee'')]"
  using extract_menu_items_closed_prefix [of ascii_digit "ustr ''Tea\<newline>$2.00\<newline>Coffee''"]
  by (simp add: tea_coffee closed_def partial_record_def)

text \<open>
  Claim C10. A line with a price that arrives while no item is open changes nothing: no
  item is appended, none is opened, the accumulator stays empty. Hence such a line can
  be deleted from the input of the loop without changing its result.
\<close>

theorem price_line_idle_dropped:
  assumes "has_price dec line"
  shows "process_line dec (items, []) line = (items, []) \<and>
         (snd (segment_lines dec st pre) = [] \<longrightarrow>
            segment_lines dec st (pre @ line # post) = segment_lines dec st (pre @ post))"
proof -
  have step: "process_line dec (items', []) line = (items', [])" for items'
    using assms by (rule process_line_price_idle)
  have "segment_lines dec st (pre @ line # post) = segment_lines dec st (pre @ post)"
    if "snd (segment_lines dec st pre) = []"
  proof -
    have mid: "segment_lines dec st pre = (fst (segment_lines dec st pre), [])"
      using that by (metis prod.collapse)
    have "segment_lines dec st (pre @ line # post) =
        segment_lines dec (process_line dec (segment_lines dec st pre) line) post"
      by (simp add: segment_lines_def)
    also have "process_line dec (segment_lines dec st pre) line = segment_lines dec st pre"
      by (subst (1 2) mid) (rule step)
    finally show ?thesis by (simp add: segment_lines_append)
  qed
  with step show ?thesis by blast
qed

theorem price_line_idle_dropped_witness:
  "has_price ascii_digit (ustr ''$2.00'') \<and>
   process_line ascii_digit ([], []) (ustr ''$2.00'') = ([], []) \<and>
   snd (segment_lines ascii_digit ([], []) []) = [] \<and>
   segment_lines ascii_digit ([], []) ([] @ ustr ''$2.00'' # [ustr ''Tea'']) =
     ([], [(''name'', ustr ''Tea'')])"
proof -
  have h: "has_price ascii_digit (ustr ''$2.00'')"
    by (simp add: has_price_def search_two_dollars)
  have e: "snd (segment_lines ascii_digit ([], []) []) = []"
    by (simp add: segment_lines_def)
  have "segment_lines ascii_digit ([], []) ([] @ [ustr ''Tea'']) = ([], [(''name'', ustr ''Tea'')])"
    by (simp add: segment_lines_def process_tea)
  with h e price_line_idle_dropped [OF h, of "[]" "([], [])" "[]" "[ustr ''Tea'']"]
  show ?thesis by simp
qed

section \<open>Short lines\<close>

lemma segment_lines_filter:
  "segment_lines dec st (filter (\<lambda>l. 3 \<le> length l) ls) = segment_lines dec st ls"
  unfolding segment_lines_def
  by (induction ls arbitrary: st) (simp_all add: process_line_short not_le)

lemma clean_lines_long:
  "filter (\<lambda>l. 3 \<le> length l) (clean_lines text) = map strip (long_lines text)"
proof -
  have "(l \<noteq> [] \<and> 3 \<le> length l) = (3 \<le> length l)" for l :: ustring
    by auto
  then show ?thesis
    by (simp add: clean_lines_def long_lines_def filter_map comp_def)
qed

lemma extract_long_lines:
  "extract_menu_items dec text =
     flush (segment_lines dec ([], []) (map strip (long_lines text)))"
proof -
  have "extract_menu_items dec text =
      flush (segment_lines dec ([], []) (filter (\<lambda>l. 3 \<le> length l) (clean_lines text)))"
    by (simp add: extract_menu_items_def segment_lines_filter)
  then show ?thesis by (simp add: clean_lines_long)
qed

lemma split_nonempty: "split sep s \<noteq> []"
  by (induction s) (auto split: list.splits)

lemma split_no_sep: "l \<in> set (split sep s) \<Longrightarrow> sep \<notin> set l"
proof (induction s arbitrary: l)
  case Nil
  then show ?case by simp
next
  case (Cons c cs)
  then show ?case
    by (cases "split sep cs") (auto simp: split_nonempty split: if_splits)
qed

lemma split_no_sep_id: "sep \<notin> set l \<Longrightarrow> split sep l = [l]"
  by (induction l) auto

lemma split_append_sep:
  "sep \<notin> set l \<Longrightarrow> split sep (l @ sep # rest) = l # split sep rest"
  by (induction l) auto

lemma split_join:
  "ls \<noteq> [] \<Longrightarrow> \<forall>l\<in>set ls. sep \<notin> set l \<Longrightarrow> split sep (join sep ls) = ls"
proof (induction sep ls rule: join.induct)
  case (1 sep)
  then show ?case by simp
next
  case (2 sep l)
  then show ?case by (simp add: split_no_sep_id)
next
  case (3 sep l v va)
  then show ?case by (simp add: split_append_sep)
qed

lemma long_lines_drop_short: "long_lines (drop_short_lines text) = long_lines text"
proof (cases "long_lines text = []")
  case True
  then show ?thesis
    by (simp add: drop_short_lines_def) (simp add: long_lines_def strip_def)
next
  case False
  have "\<forall>l\<in>set (long_lines text). 10 \<notin> set l"
    by (auto simp: long_lines_def dest: split_no_sep)
  with False have "split 10 (join 10 (long_lines text)) = long_lines text"
    by (rule split_join)
  then have "long_lines (drop_short_lines text) =
      filter (\<lambda>l. 3 \<le> length (strip l)) (long_lines text)"
    by (simp add: drop_short_lines_def long_lines_def [of "join 10 (long_lines text)"])
  then show ?thesis by (simp add: long_lines_def)
qed

text \<open>
  Claim C7. Lines whose trimmed length is below 3 never influence the segmenter: the
  output on a text is the output on the text with these lines removed, and two texts
  with the same remaining lines have the same output, whatever their short lines are.
\<close>

theorem short_lines_ignored:
  "extract_menu_items dec (drop_short_lines text) = extract_menu_items dec text \<and>
   (long_lines text' = long_lines text \<longrightarrow>
      extract_menu_items dec text' = extract_menu_items dec text)"
  by (simp add: extract_long_lines long_lines_drop_short)

theorem short_lines_ignored_witness:
  "drop_short_lines (ustr ''ab\<newline>Tea\<newline> $1 \<newline>$2.00\<newline>\<newline>Coffee'') =
     ustr ''Tea\<newline>$2.00\<newline>Coffee'' \<and>
   long_lines (ustr ''Tea\<newline>9\<newline>$2.00\<newline>Coffee'') =
     long_lines (ustr ''ab\<newline>Tea\<newline> $1 \<newline>$2.00\<newline>\<newline>Coffee'') \<and>
   extract_menu_items ascii_digit (ustr ''ab\<newline>Tea\<newline> $1 \<newline>$2.00\<newline>\<newline>Coffee'') =
     [[(''name'', ustr ''Tea''), (''price'', ustr ''$2.00''), (''full_text'', ustr ''Tea $2.00'')],
      [(''name'', ustr ''Coffee'')]] \<and>
   extract_menu_items ascii_digit (ustr ''Tea\<newline>9\<newline>$2.00\<newline>Coffee'') =
     [[(''name'', ustr ''Tea''), (''price'', ustr ''$2.00''), (''full_text'', ustr ''Tea $2.00'')],
      [(''name'', ustr ''Coffee'')]]"
proof -
  have d: "drop_short_lines (ustr ''ab\<newline>Tea\<newline> $1 \<newline>$2.00\<newline>\<newline>Coffee'') =
      ustr ''Tea\<newline>$2.00\<newline>Coffee''"
    by (simp add: drop_short_lines_def long_lines_def strip_def isspace_def ustr_def)
  have l: "long_lines (ustr ''Tea\<newline>9\<newline>$2.00\<newline>Coffee'') =
      long_lines (ustr ''ab\<newline>Tea\<newline> $1 \<newline>$2.00\<newline>\<newline>Coffee'')"
    by (simp add: long_lines_def strip_def isspace_def ustr_def)
  from short_lines_ignored [of ascii_digit
      "ustr ''ab\<newline>Tea\<newline> $1 \<newline>$2.00\<newline>\<newline>Coffee''"
      "ustr ''Tea\<newline>9\<newline>$2.00\<newline>Coffee''"] d l
  show ?thesis by (simp add: tea_coffee)
qed

section \<open>The OCR selector\<close>


lemma highest_first_skip:
  assumes "\<exists>c\<in>set cs. snd b < snd c"
  shows "highest_first (b # cs) = highest_first cs"
proof -
  from assms obtain c where c: "c \<in> set cs" "snd b < snd c" by blast
  then have ne: "snd ` set cs \<noteq> {}" by auto
  have "snd c \<le> Max (snd ` set cs)" using c by simp
  with c(2) have lt: "snd b < Max (snd ` set cs)" by (rule less_le_trans)
  then have "Max (insert (snd b) (snd ` set cs)) = Max (snd ` set cs)"
    using ne by (simp add: max_def)
  with lt show ?thesis by (simp add: highest_first_def)
qed

lemma highest_first_keep:
  assumes "\<forall>c\<in>set cs. snd c \<le> snd b"
  shows "highest_first (b # cs) = Some b"
proof -
  have "Max (insert (snd b) (snd ` set cs)) = snd b"
    using assms by (intro Max_eqI) auto
  then show ?thesis by (simp add: highest_first_def)
qed

lemma highest_first_drop_second:
  assumes "snd c \<le> snd b"
  shows "highest_first (b # c # cs) = highest_first (b # cs)"
proof -
  have "snd b \<le> Max (insert (snd b) (snd ` set cs))" by simp
  with assms have "snd c \<le> Max (insert (snd b) (snd ` set cs))" by (rule order_trans)
  moreover have "Max (insert (snd c) (insert (snd b) (snd ` set cs))) =
      max (snd c) (Max (insert (snd b) (snd ` set cs)))"
    by (rule Max_insert) simp_all
  ultimately have m: "Max (insert (snd b) (insert (snd c) (snd ` set cs))) =
           Max (insert (snd b) (snd ` set cs))"
    by (simp add: insert_commute [of "snd b"] max_def)
  show ?thesis
  proof (cases "snd b = Max (insert (snd b) (snd ` set cs))")
    case True
    with m show ?thesis by (simp add: highest_first_def)
  next
    case False
    from False have "snd b < Max (insert (snd b) (snd ` set cs))"
      by (simp add: less_le)
    with assms have "snd c \<noteq> Max (insert (snd b) (snd ` set cs))" by simp
    with m False show ?thesis by (simp add: highest_first_def)
  qed
qed

text \<open>
  The loop of the selector returns the first of the highest candidates, when the pair it
  starts from is counted as the earliest candidate.
\<close>

lemma ocr_loop_highest_first:
  "Some (foldl (try_config t) best cfgs) =
     highest_first (best # List.map_filter (run_config t) cfgs)"
proof (induction cfgs arbitrary: best)
  case Nil
  then show ?case by (simp add: highest_first_def)
next
  case (Cons config cfgs)
  show ?case
  proof (cases "run_config t config")
    case None
    then show ?thesis
      using Cons.IH [of best] by (simp add: try_config_def)
  next
    case (Some cand)
    show ?thesis
    proof (cases "snd best < snd cand")
      case True
      then have "try_config t best config = cand"
        using Some by (cases cand) (simp add: try_config_def)
      moreover have "highest_first (best # cand # List.map_filter (run_config t) cfgs) =
          highest_first (cand # List.map_filter (run_config t) cfgs)"
        using True by (intro highest_first_skip) simp
      ultimately show ?thesis
        using Cons.IH [of cand] Some by simp
    next
      case False
      then have "try_config t best config = best"
        using Some by (cases cand) (simp add: try_config_def)
      moreover have "highest_first (best # cand # List.map_filter (run_config t) cfgs) =
          highest_first (best # List.map_filter (run_config t) cfgs)"
        using False by (intro highest_first_drop_second) simp
      ultimately show ?thesis
        using Cons.IH [of best] Some by simp
    qed
  qed
qed

lemma select_best_seeded: "Some (select_best t) = highest_first (([], 0) # candidates t)"
  by (simp add: select_best_def candidates_def ocr_loop_highest_first)


lemmas fake_tesseract_defs =
  fake_tesseract_def run_config_def ocr_configs_def avg_confidence_def

text \<open>
  Claim C3, as the specification states it: the selector keeps the first of the
  candidates with the highest mean confidence among the profiles that succeed. It fails
  where a profile succeeds with mean confidence 0: the confidence column \<open>[-1, 0]\<close> has
  no positive score, the profile's text \<^verbatim>\<open>Soup\<close> is the only candidate, and the selector
  keeps the empty text it started from, because \<open>0 < 0\<close> is false.
\<close>

theorem select_best_zero_confidence_counterexample:
  "candidates (fake_tesseract [(''--oem 3 --psm 6'', [-1, 0], ustr ''Soup'')]) =
     [(ustr ''Soup'', 0)] \<and>
   highest_first (candidates (fake_tesseract [(''--oem 3 --psm 6'', [-1, 0], ustr ''Soup'')])) =
     Some (ustr ''Soup'', 0) \<and>
   select_best (fake_tesseract [(''--oem 3 --psm 6'', [-1, 0], ustr ''Soup'')]) = ([], 0) \<and>
   Some (select_best (fake_tesseract [(''--oem 3 --psm 6'', [-1, 0], ustr ''Soup'')])) \<noteq>
     highest_first (candidates (fake_tesseract [(''--oem 3 --psm 6'', [-1, 0], ustr ''Soup'')]))"
  by (simp add: candidates_def select_best_def try_config_def highest_first_def
      fake_tesseract_defs ustr_def)

text \<open>
  Claim C3, amended. The comparison starts from the empty text with confidence 0 and is
  strict. When some profile succeeds with a mean confidence above 0, the selector
  returns the first of the candidates with the highest mean confidence, so a later
  profile with an equal score never replaces an earlier one; when none does, it returns
  the empty text with confidence 0. For three successful profiles with mean confidences
  40, 85 and 60 it returns the text of the second and the confidence 85.
\<close>

theorem select_best_highest_first:
  "((\<exists>c\<in>set (candidates t). 0 < snd c) \<longrightarrow>
      Some (select_best t) = highest_first (candidates t)) \<and>
   (\<not> (\<exists>c\<in>set (candidates t). 0 < snd c) \<longrightarrow> select_best t = ([], 0)) \<and>
   (map (run_config t) ocr_configs = [Some (t1, 40), Some (t2, 85), Some (t3, 60)] \<longrightarrow>
      select_best t = (t2, 85))"
proof (intro conjI impI)
  assume "\<exists>c\<in>set (candidates t). 0 < snd c"
  then have "highest_first (([], 0) # candidates t) = highest_first (candidates t)"
    by (intro highest_first_skip) simp
  then show "Some (select_best t) = highest_first (candidates t)"
    by (simp add: select_best_seeded)
next
  assume "\<not> (\<exists>c\<in>set (candidates t). 0 < snd c)"
  then have "highest_first (([], 0) # candidates t) = Some ([], 0)"
    by (intro highest_first_keep) (auto simp: not_less)
  then show "select_best t = ([], 0)"
    using select_best_seeded [of t] by simp
next
  assume "map (run_config t) ocr_configs = [Some (t1, 40), Some (t2, 85), Some (t3, 60)]"
  then show "select_best t = (t2, 85)"
    by (simp add: select_best_def ocr_configs_def try_config_def)
qed

theorem select_best_highest_first_witness:
  "map (run_config (fake_tesseract
       [(''--oem 3 --psm 6'', [-1, 40], ustr ''Sovp''),
        (''--oem 3 --psm 4'', [90, 0, 80], ustr ''Soup''),
        (''--oem 3 --psm 3'', [60, 60], ustr ''Soap'')])) ocr_configs =
     [Some (ustr ''Sovp'', 40), Some (ustr ''Soup'', 85), Some (ustr ''Soap'', 60)] \<and>
   select_best (fake_tesseract
       [(''--oem 3 --psm 6'', [-1, 40], ustr ''Sovp''),
        (''--oem 3 --psm 4'', [90, 0, 80], ustr ''Soup''),
        (''--oem 3 --psm 3'', [60, 60], ustr ''Soap'')]) = (ustr ''Soup'', 85) \<and>
   highest_first (candidates (fake_tesseract
       [(''--oem 3 --psm 6'', [85], ustr ''first''),
        (''--oem 3 --psm 3'', [85], ustr ''later'')])) = Some (ustr ''first'', 85) \<and>
   select_best (fake_tesseract
       [(''--oem 3 --psm 6'', [85], ustr ''first''),
        (''--oem 3 --psm 3'', [85], ustr ''later'')]) = (ustr ''first'', 85) \<and>
   select_best (fake_tesseract []) = ([], 0)"
proof -
  let ?three = "fake_tesseract
       [(''--oem 3 --psm 6'', [-1, 40], ustr ''Sovp''),
        (''--oem 3 --psm 4'', [90, 0, 80], ustr ''Soup''),
        (''--oem 3 --psm 3'', [60, 60], ustr ''Soap'')]"
  let ?tie = "fake_tesseract
       [(''--oem 3 --psm 6'', [85], ustr ''first''),
        (''--oem 3 --psm 3'', [85], ustr ''later'')]"
  have three: "map (run_config ?three) ocr_configs =
      [Some (ustr ''Sovp'', 40), Some (ustr ''Soup'', 85), Some (ustr ''Soap'', 60)]"
    by (simp add: fake_tesseract_defs)
  have tie: "candidates ?tie = [(ustr ''first'', 85), (ustr ''later'', 85)]"
    by (simp add: candidates_def fake_tesseract_defs)
  have tie_first: "highest_first (candidates ?tie) = Some (ustr ''first'', 85)"
    by (simp add: tie highest_first_def)
  have none: "candidates (fake_tesseract []) = []"
    by (simp add: candidates_def fake_tesseract_defs)
  from select_best_highest_first [of ?three "ustr ''Sovp''" "ustr ''Soup''" "ustr ''Soap''"]
    three
  have 1: "select_best ?three = (ustr ''Soup'', 85)" by blast
  from select_best_highest_first [of ?tie] tie tie_first
  have 2: "select_best ?tie = (ustr ''first'', 85)" by simp
  from select_best_highest_first [of "fake_tesseract []"] none
  have 3: "select_best (fake_tesseract []) = ([], 0)" by simp
  from three 1 tie_first 2 3 show ?thesis by blast
qed





section \<open>Translation\<close>

text \<open>
  Claim C8. To the target \<^verbatim>\<open>en\<close> the text is returned as it is and the translation
  service is not called: whatever the service would do, the state of the world is the
  one before. To any target, when the call to the service raises, the text is returned
  as it is.
\<close>

theorem translate_text_best_effort:
  "translate_text tr s text (ustr ''en'') = (text, s) \<and>
   (fst (translate tr s text target_lang) = None \<longrightarrow>
      fst (translate_text tr s text target_lang) = text)"
  by (auto simp: translate_text_def split: prod.splits option.splits)

theorem translate_text_best_effort_witness:
  "translate_text (fake_translator None [(ustr ''Soup'', ustr ''Soupe'')]) 0 (ustr ''Soup'')
       (ustr ''en'') = (ustr ''Soup'', 0) \<and>
   translate (fake_translator None [(ustr ''Soup'', ustr ''Soupe'')]) 0 (ustr ''Tea'')
       (ustr ''fr'') = (None, 1) \<and>
   fst (translate_text (fake_translator None [(ustr ''Soup'', ustr ''Soupe'')]) 0 (ustr ''Tea'')
       (ustr ''fr'')) = ustr ''Tea'' \<and>
   translate_text (fake_translator None [(ustr ''Soup'', ustr ''Soupe'')]) 0 (ustr ''Soup'')
       (ustr ''fr'') = (ustr ''Soupe'', 1)"
proof -
  let ?tr = "fake_translator None [(ustr ''Soup'', ustr ''Soupe'')]"
  have raises: "translate ?tr 0 (ustr ''Tea'') (ustr ''fr'') = (None, 1)"
    by (simp add: fake_translator_def ustr_def)
  have called: "translate_text ?tr 0 (ustr ''Soup'') (ustr ''fr'') = (ustr ''Soupe'', 1)"
    by (simp add: translate_text_def fake_translator_def ustr_def)
  from translate_text_best_effort [of ?tr 0 "ustr ''Soup''" "ustr ''fr''"]
  have en: "translate_text ?tr 0 (ustr ''Soup'') (ustr ''en'') = (ustr ''Soup'', 0)"
    by blast
  from translate_text_best_effort [of ?tr 0 "ustr ''Tea''" "ustr ''fr''"] raises
  have "fst (translate_text ?tr 0 (ustr ''Tea'') (ustr ''fr'')) = ustr ''Tea''"
    by simp
  with en raises called show ?thesis by blast
qed

lemma translate_key_frame:
  "k \<noteq> key @ ''_translated'' \<Longrightarrow>
   map_of (fst (translate_key tr target_lang st key)) k = map_of (fst st) k"
  by (simp add: translate_key_def AList.update_conv' split: option.splits prod.splits)

lemma translate_key_keys:
  "fst ` set (fst (translate_key tr target_lang st key)) =
     fst ` set (fst st) \<union> (if map_of (fst st) key \<noteq> None then {key @ ''_translated''} else {})"
  by (auto simp: translate_key_def AList.dom_update split: option.splits prod.splits)

lemma translate_item_adds:
  "keeps_fields item (fst (translate_item tr target_lang (item, s))) \<and>
   gains_translations item (fst (translate_item tr target_lang (item, s)))"
proof -
  define st1 where "st1 = translate_key tr target_lang (item, s) ''name''"
  have item': "translate_item tr target_lang (item, s) =
      translate_key tr target_lang st1 ''description''"
    by (simp add: translate_item_def st1_def)
  have d: "map_of (fst st1) ''description'' = map_of item ''description''"
    unfolding st1_def by (subst translate_key_frame) simp_all
  have frame: "map_of (fst (translate_item tr target_lang (item, s))) key = map_of item key"
    if "key \<noteq> ''name_translated''" "key \<noteq> ''description_translated''" for key
    using that unfolding item' st1_def by (simp add: translate_key_frame)
  have keys: "fst ` set (fst (translate_item tr target_lang (item, s))) =
      fst ` set item \<union> set (translated_keys item)"
    unfolding item' translate_key_keys d
    unfolding st1_def translate_key_keys
    by (auto simp: translated_keys_def)
  show ?thesis
    using frame keys by (simp add: keeps_fields_def gains_translations_def)
qed

lemma translate_items_adds:
  "list_all2 (\<lambda>item item'. keeps_fields item item' \<and> gains_translations item item') items
     (fst (translate_items tr target_lang items s))"
proof (induction items arbitrary: s)
  case Nil
  then show ?case by simp
next
  case (Cons item items)
  obtain item' s' where 1: "translate_item tr target_lang (item, s) = (item', s')"
    by (cases "translate_item tr target_lang (item, s)")
  obtain items' s'' where 2: "translate_items tr target_lang items s' = (items', s'')"
    by (cases "translate_items tr target_lang items s'")
  have "keeps_fields item item' \<and> gains_translations item item'"
    using translate_item_adds [of item tr target_lang s] by (simp add: 1)
  moreover have "list_all2 (\<lambda>item item'. keeps_fields item item' \<and> gains_translations item item')
      items items'"
    using Cons.IH [of s'] by (simp add: 2)
  ultimately show ?case by (simp add: 1 2)
qed

text \<open>
  Claim C9. Translation returns the items in the same number and order, and in each
  item every key other than \<^verbatim>\<open>name_translated\<close> and \<^verbatim>\<open>description_translated\<close> keeps its
  value, so name, description, price and full text are unchanged. When the target
  language is not \<^verbatim>\<open>en\<close> and differs from the detected language, the keys an item gains
  are exactly the synthesized keys of those of its fields name and description that are
  present; when the target language is \<^verbatim>\<open>en\<close> or equals the detected language, no item
  is modified and the translation service is not called.
\<close>

theorem translate_menu_frame:
  "list_all2 keeps_fields items (fst (translate_menu tr target_lang detected_lang items s)) \<and>
   (target_lang \<noteq> ustr ''en'' \<and> detected_lang \<noteq> target_lang \<longrightarrow>
      list_all2 gains_translations items
        (fst (translate_menu tr target_lang detected_lang items s))) \<and>
   (target_lang = ustr ''en'' \<or> detected_lang = target_lang \<longrightarrow>
      translate_menu tr target_lang detected_lang items s = (items, s))"
proof (cases "target_lang \<noteq> ustr ''en'' \<and> detected_lang \<noteq> target_lang")
  case True
  then have run: "translate_menu tr target_lang detected_lang items s =
      translate_items tr target_lang items s"
    by (simp add: translate_menu_def)
  have both: "list_all2 (\<lambda>item item'. keeps_fields item item' \<and> gains_translations item item')
      items (fst (translate_items tr target_lang items s))"
    by (rule translate_items_adds)
  have "list_all2 keeps_fields items (fst (translate_items tr target_lang items s))"
    by (rule list_all2_mono [OF both]) simp
  moreover have "list_all2 gains_translations items (fst (translate_items tr target_lang items s))"
    by (rule list_all2_mono [OF both]) simp
  ultimately show ?thesis using True by (simp add: run)
next
  case False
  then have skip: "translate_menu tr target_lang detected_lang items s = (items, s)"
    by (auto simp: translate_menu_def)
  have "list_all2 keeps_fields items items"
    by (rule list_all2_refl) (simp add: keeps_fields_def)
  with False show ?thesis by (auto simp: skip)
qed

theorem translate_menu_frame_witness:
  "translate_menu (fake_translator None [(ustr ''Soup'', ustr ''Soupe'')]) (ustr ''fr'')
       (ustr ''en'')
       [[(''name'', ustr ''Soup''), (''price'', ustr ''$5.00''),
         (''full_text'', ustr ''Soup $5.00'')],
        [(''description'', ustr ''Fresh bread baked daily'')]] 0 =
     ([[(''name'', ustr ''Soup''), (''price'', ustr ''$5.00''),
        (''full_text'', ustr ''Soup $5.00''), (''name_translated'', ustr ''Soupe'')],
       [(''description'', ustr ''Fresh bread baked daily''),
        (''description_translated'', ustr ''Fresh bread baked daily'')]], 2) \<and>
   list_all2 keeps_fields
     [[(''name'', ustr ''Soup''), (''price'', ustr ''$5.00''),
       (''full_text'', ustr ''Soup $5.00'')],
      [(''description'', ustr ''Fresh bread baked daily'')]]
     [[(''name'', ustr ''Soup''), (''price'', ustr ''$5.00''),
       (''full_text'', ustr ''Soup $5.00''), (''name_translated'', ustr ''Soupe'')],
      [(''description'', ustr ''Fresh bread baked daily''),
       (''description_translated'', ustr ''Fresh bread baked daily'')]] \<and>
   list_all2 gains_translations
     [[(''name'', ustr ''Soup''), (''price'', ustr ''$5.00''),
       (''full_text'', ustr ''Soup $5.00'')],
      [(''description'', ustr ''Fresh bread baked daily'')]]
     [[(''name'', ustr ''Soup''), (''price'', ustr ''$5.00''),
       (''full_text'', ustr ''Soup $5.00''), (''name_translated'', ustr ''Soupe'')],
      [(''description'', ustr ''Fresh bread baked daily''),
       (''description_translated'', ustr ''Fresh bread baked daily'')]] \<and>
   translate_menu (fake_translator None [(ustr ''Soup'', ustr ''Soupe'')]) (ustr ''fr'')
       (ustr ''fr'')
       [[(''name'', ustr ''Soup''), (''price'', ustr ''$5.00''),
         (''full_text'', ustr ''Soup $5.00'')],
        [(''description'', ustr ''Fresh bread baked daily'')]] 0 =
     ([[(''name'', ustr ''Soup''), (''price'', ustr ''$5.00''),
        (''full_text'', ustr ''Soup $5.00'')],
       [(''description'', ustr ''Fresh bread baked daily'')]], 0)"
proof -
  let ?tr = "fake_translator None [(ustr ''Soup'', ustr ''Soupe'')]"
  let ?items = "[[(''name'', ustr ''Soup''), (''price'', ustr ''$5.00''),
         (''full_text'', ustr ''Soup $5.00'')],
        [(''description'', ustr ''Fresh bread baked daily'')]]"
  have fr_en: "ustr ''fr'' \<noteq> ustr ''en''" "ustr ''en'' \<noteq> ustr ''fr''"
    by (simp_all add: ustr_def)
  have run: "translate_menu ?tr (ustr ''fr'') (ustr ''en'') ?items 0 =
     ([[(''name'', ustr ''Soup''), (''price'', ustr ''$5.00''),
        (''full_text'', ustr ''Soup $5.00''), (''name_translated'', ustr ''Soupe'')],
       [(''description'', ustr ''Fresh bread baked daily''),
        (''description_translated'', ustr ''Fresh bread baked daily'')]], 2)"
    by (simp add: translate_menu_def translate_item_def translate_key_def translate_text_def
        fake_translator_def fr_en) (simp add: ustr_def)
  from translate_menu_frame [of ?items ?tr "ustr ''fr''" "ustr ''en''" 0] fr_en run
  have 1: "list_all2 keeps_fields ?items (fst (translate_menu ?tr (ustr ''fr'') (ustr ''en'') ?items 0))"
    and 2: "list_all2 gains_translations ?items
      (fst (translate_menu ?tr (ustr ''fr'') (ustr ''en'') ?items 0))"
    by blast+
  from translate_menu_frame [of ?items ?tr "ustr ''fr''" "ustr ''fr''" 0]
  have 3: "translate_menu ?tr (ustr ''fr'') (ustr ''fr'') ?items 0 = (?items, 0)"
    by blast
  from run 1 2 3 show ?thesis by simp
qed

end
